theory Spec2Isabelle
  imports Main "HOL-Library.Monad_Syntax"
begin

section \<open>Errors and operations\<close>

subsection \<open>Errors\<close>

text \<open>
  Go errors are values. \<^verbatim>\<open>fmt.Errorf\<close>, \<^verbatim>\<open>errors.New\<close> and \<^verbatim>\<open>errors.Errorf\<close> build an
  error from a format string and its arguments (kept apart, unformatted);
  \<^verbatim>\<open>errors.Wrap\<close> and \<^verbatim>\<open>errors.Wrapf\<close> put a message in front of an error that is not nil.
  \<open>ErrNotExist\<close> is the operating system's "no such file or directory" (ENOENT), the
  error \<^verbatim>\<open>os.IsNotExist\<close> accepts; \<open>ErrNotDir\<close> is its "not a directory" (ENOTDIR), which
  \<^verbatim>\<open>os.IsNotExist\<close> does not accept. \<open>External\<close> is any other error handed back by the
  operating system, the kubeconfig package or the Kubernetes client, tagged with the
  call that failed.
\<close>

datatype error =
    ErrNotExist
  | ErrNotDir
  | External string
  | Errorf string "string list"
  | Wrapf error string "string list"

definition IsNotExist :: "error \<Rightarrow> bool" where
  "IsNotExist err = (err = ErrNotExist)"

subsection \<open>Operations\<close>

text \<open>
  The Go interface \<^verbatim>\<open>Op\<close> has one implementing struct per operation. The structs that
  \<^verbatim>\<open>parseArgs\<close> can build are the constructors below, with the struct fields as
  constructor arguments:
  \<^item> \<^verbatim>\<open>InteractiveSwitchOp{SelfCmd}\<close>, \<^verbatim>\<open>InteractiveDeleteOp{SelfCmd}\<close>;
  \<^item> \<^verbatim>\<open>UnsupportedOp{Err}\<close>;
  \<^item> \<^verbatim>\<open>DeleteOp{Contexts}\<close>, \<^verbatim>\<open>RenameOp{New, Old}\<close>, \<^verbatim>\<open>SwitchOp{Target, Namespace}\<close>;
  \<^item> the field-less \<^verbatim>\<open>ListOp\<close>, \<^verbatim>\<open>HelpOp\<close>, \<^verbatim>\<open>VersionOp\<close>, \<^verbatim>\<open>CurrentOp\<close>, \<^verbatim>\<open>UnsetOp\<close>.
\<close>

datatype Op =
    InteractiveSwitchOp string
  | ListOp
  | InteractiveDeleteOp string
  | UnsupportedOp error
  | DeleteOp "string list"
  | HelpOp
  | VersionOp
  | CurrentOp
  | UnsetOp
  | RenameOp string string
  | SwitchOp string string

text \<open>The struct type alone, without the field values.\<close>

datatype OpKind =
    KInteractiveSwitch | KList | KInteractiveDelete | KUnsupported | KDelete
  | KHelp | KVersion | KCurrent | KUnset | KRename | KSwitch

fun kindOf :: "Op \<Rightarrow> OpKind" where
  "kindOf (InteractiveSwitchOp _) = KInteractiveSwitch"
| "kindOf ListOp = KList"
| "kindOf (InteractiveDeleteOp _) = KInteractiveDelete"
| "kindOf (UnsupportedOp _) = KUnsupported"
| "kindOf (DeleteOp _) = KDelete"
| "kindOf HelpOp = KHelp"
| "kindOf VersionOp = KVersion"
| "kindOf CurrentOp = KCurrent"
| "kindOf UnsetOp = KUnset"
| "kindOf (RenameOp _ _) = KRename"
| "kindOf (SwitchOp _ _) = KSwitch"

section \<open>Argument resolution (cmd/kubectx/flags.go)\<close>

subsection \<open>Go slices: checked indexing and slicing\<close>

text \<open>
  Go panics on \<^verbatim>\<open>xs[i]\<close> with \<^verbatim>\<open>i >= len(xs)\<close> and on \<^verbatim>\<open>xs[lo:hi]\<close> unless
  \<^verbatim>\<open>lo <= hi <= cap(xs)\<close>. A panic is the value \<open>None\<close>. The capacity is taken to be the
  length, the least a slice can have.
\<close>

definition index :: "'a list \<Rightarrow> nat \<Rightarrow> 'a option" where
  "index xs i = (if i < length xs then Some (xs ! i) else None)"

definition slice :: "'a list \<Rightarrow> nat \<Rightarrow> nat \<Rightarrow> 'a list option" where
  "slice xs lo hi = (if lo \<le> hi \<and> hi \<le> length xs then Some (take (hi - lo) (drop lo xs)) else None)"

text \<open>\<^verbatim>\<open>strings.HasPrefix(s, prefix)\<close>\<close>

definition HasPrefix :: "string \<Rightarrow> string \<Rightarrow> bool" where
  "HasPrefix s p = (take (length p) s = p)"

subsection \<open>Rename syntax\<close>

text \<open>
  Modelled from the spec: \<^verbatim>\<open>parseRenameSyntax\<close> is called by \<^verbatim>\<open>parseArgs\<close> and defined in a
  file that is not part of the sources at hand. The specification describes it as: the
  token has the form \<^verbatim>\<open>NEW=OLD\<close>, it is split on the first \<^verbatim>\<open>=\<close>, both sides are non-empty,
  and there is exactly one \<^verbatim>\<open>=\<close>; any other token is not a rename.
\<close>

definition parseRenameSyntax :: "string \<Rightarrow> (string \<times> string) option" where
  "parseRenameSyntax v =
     (let new = takeWhile (\<lambda>c. c \<noteq> CHR ''='') v;
          rest = dropWhile (\<lambda>c. c \<noteq> CHR ''='') v
      in if rest = [] then None
         else let old = tl rest
              in if new = [] \<or> old = [] \<or> CHR ''='' \<in> set old then None
                 else Some (new, old))"

subsection \<open>parseArgs\<close>

text \<open>
  The scan for the namespace flag (flags.go, the \<^verbatim>\<open>for\<close> loop). The loop either returns
  from \<^verbatim>\<open>parseArgs\<close> with an \<^verbatim>\<open>UnsupportedOp\<close> (\<open>Inl\<close>), or leaves the two locals
  \<^verbatim>\<open>namespace\<close> and \<^verbatim>\<open>namespaceIndex\<close> (\<open>Inr\<close>); they start as the empty string and
  \<open>-1\<close>.
\<close>

function namespaceLoop :: "string list \<Rightarrow> nat \<Rightarrow> (Op + string \<times> int) option" where
  "namespaceLoop argv i =
     (if i < length argv then
        do {
          a \<leftarrow> index argv i;
          if a = ''-n'' \<or> a = ''--namespace'' then
            (if i + 1 \<ge> length argv then
               Some (Inl (UnsupportedOp (Errorf '''-n' requires a namespace argument'' [])))
             else do {
               namespace \<leftarrow> index argv (i + 1);
               Some (Inr (namespace, int i))
             })
          else namespaceLoop argv (i + 1)
        }
      else Some (Inr ('''', -1)))"
  by pat_completeness auto
termination
  by (relation "measure (\<lambda>(argv, i). length argv - i)") auto

declare namespaceLoop.simps [simp del]

text \<open>
  \<^verbatim>\<open>remainingArgs\<close>: \<^verbatim>\<open>append(argv[:namespaceIndex], argv[namespaceIndex+2:]...)\<close> when a
  flag was found, \<^verbatim>\<open>argv\<close> otherwise. The append writes into the array of \<^verbatim>\<open>argv\<close>,
  which is not read afterwards; its result is the concatenation.
\<close>

definition remainingArgsOf :: "string list \<Rightarrow> int \<Rightarrow> string list option" where
  "remainingArgsOf argv namespaceIndex =
     (if namespaceIndex \<ge> 0 then
        do {
          front \<leftarrow> slice argv 0 (nat namespaceIndex);
          back \<leftarrow> slice argv (nat (namespaceIndex + 2)) (length argv);
          Some (front @ back)
        }
      else Some argv)"

text \<open>
  The classification of the remaining tokens (flags.go, from
  \<^verbatim>\<open>if len(remainingArgs) == 0\<close> to the end). \<open>interactive\<close> is the answer of
  \<^verbatim>\<open>cmdutil.IsInteractiveMode(os.Stdout)\<close> and \<open>self\<close> is \<^verbatim>\<open>os.Args[0]\<close>.
\<close>

definition classify :: "bool \<Rightarrow> string \<Rightarrow> string \<Rightarrow> string list \<Rightarrow> Op option" where
  "classify interactive self namespace remainingArgs =
     (if length remainingArgs = 0 then
        (if namespace \<noteq> '''' then
           Some (UnsupportedOp (Errorf ''context name is required when using -n flag'' []))
         else if interactive then Some (InteractiveSwitchOp self)
         else Some ListOp)
      else if length remainingArgs = 1 then
        do {
          v \<leftarrow> index remainingArgs 0;
          if v = ''--help'' \<or> v = ''-h'' then Some HelpOp
          else if v = ''--version'' \<or> v = ''-V'' then Some VersionOp
          else if v = ''--current'' \<or> v = ''-c'' then Some CurrentOp
          else if v = ''--unset'' \<or> v = ''-u'' then Some UnsetOp
          else (case parseRenameSyntax v of
                  Some (new, old) \<Rightarrow> Some (RenameOp new old)
                | None \<Rightarrow>
                    if HasPrefix v ''-'' \<and> v \<noteq> ''-'' then
                      Some (UnsupportedOp (Errorf (''unsupported option '%s'' @ [CHR 0x27]) [v]))
                    else Some (SwitchOp v namespace))
        }
      else Some (UnsupportedOp (Errorf ''too many arguments'' [])))"

definition parseArgs :: "bool \<Rightarrow> string \<Rightarrow> string list \<Rightarrow> Op option" where
  "parseArgs interactive self argv =
     (if length argv = 0 then
        (if interactive then Some (InteractiveSwitchOp self) else Some ListOp)
      else do {
        a0 \<leftarrow> index argv 0;
        if a0 = ''-d'' then
          (if length argv = 1 then
             (if interactive then Some (InteractiveDeleteOp self)
              else Some (UnsupportedOp (Errorf '''-d' needs arguments'' [])))
           else do {
             contexts \<leftarrow> slice argv 1 (length argv);
             Some (DeleteOp contexts)
           })
        else do {
          r \<leftarrow> namespaceLoop argv 0;
          case r of
            Inl op \<Rightarrow> Some op
          | Inr (namespace, namespaceIndex) \<Rightarrow>
              do {
                remainingArgs \<leftarrow> remainingArgsOf argv namespaceIndex;
                classify interactive self namespace remainingArgs
              }
        }
      })"

section \<open>Context and namespace switching (cmd/kubectx/switch.go)\<close>

subsection \<open>The process environment\<close>

text \<open>
  What the file system has at a path:
  \<^item> \<open>NotExist\<close>: no file, and every component of the path before the last is a
    directory or is missing as well; opening the path fails with ENOENT;
  \<^item> \<open>NotADirectory\<close>: no file either, because a component of the path before the last
    is a regular file; opening the path fails with ENOTDIR, as it does on Linux and
    macOS;
  \<^item> \<open>Unreadable\<close>: a file that cannot be read;
  \<^item> \<open>Content\<close>: a readable file with these bytes.
\<close>

datatype file_state = NotExist | NotADirectory | Unreadable | Content string

text \<open>The file does not exist: nothing is at the path, for either reason.\<close>

definition fileMissing :: "file_state \<Rightarrow> bool" where
  "fileMissing st = (st = NotExist \<or> st = NotADirectory)"

text \<open>
  Modelled from the spec: the package \<^verbatim>\<open>internal/kubeconfig\<close> is not part of the sources
  at hand. The specification lists it as the Config Store: a configuration holds the
  active-context pointer (empty when no context is configured) and named contexts,
  each with the namespace recorded for it.
\<close>

record Kubeconfig =
  currentContext :: string
  contexts :: "(string \<times> string) list"

text \<open>What the Kubernetes client's \<^verbatim>\<open>Namespaces().Get\<close> hands back as its error.\<close>

datatype get_error = GetNil | GetNotFound | GetFailed

text \<open>Where \<^verbatim>\<open>newKubernetesClientSet\<close> stops, if it does.\<close>

datatype clientset_outcome = BytesFails | RESTConfigFails | NewForConfigFails | ClientsetOk

text \<open>
  Everything outside the process that the functions of switch.go read or change:
  \<^item> \<open>GOOS\<close> is \<^verbatim>\<open>runtime.GOOS\<close>; \<open>FORCE_GOOS\<close> and \<open>MOCK_NAMESPACES\<close> are the environment
    variables \<^verbatim>\<open>_FORCE_GOOS\<close> and \<^verbatim>\<open>_MOCK_NAMESPACES\<close> (empty when unset);
  \<^item> \<open>nsFileDefaultDir\<close> is the package variable of that name;
  \<^item> \<open>filepathJoin\<close> and \<open>filepathDir\<close> are \<^verbatim>\<open>filepath.Join\<close> and \<^verbatim>\<open>filepath.Dir\<close> of Go's
    standard library, left as parameters;
  \<^item> \<open>prevCtxFilePath\<close> is what \<^verbatim>\<open>kubectxPrevCtxFile()\<close> returns, \<open>None\<close> for its error;
  \<^item> \<open>files\<close> is the file system, \<open>mkdirFails\<close> and \<open>writeFails\<close> say where
    \<^verbatim>\<open>os.MkdirAll\<close> and a write to a file fail;
  \<^item> \<open>kubeconfigFile\<close> is the configuration the default loader finds, \<open>None\<close> when it
    cannot be loaded or parsed; \<open>modifyFails\<close> and \<open>saveFails\<close> say whether
    \<^verbatim>\<open>ModifyCurrentContext\<close> and \<^verbatim>\<open>Save\<close> fail;
  \<^item> \<open>clientset\<close> and \<open>namespacesGet\<close> are the Kubernetes client: the outcome of building
    it, and for each namespace name whether \<^verbatim>\<open>Get\<close> hands back a namespace that is not
    nil, and its error;
  \<^item> \<open>stderr\<close> collects what was printed (format and arguments), \<open>stderrFails\<close> says
    whether printing fails.
\<close>

record world =
  GOOS :: string
  FORCE_GOOS :: string
  MOCK_NAMESPACES :: string
  nsFileDefaultDir :: string
  filepathJoin :: "string \<Rightarrow> string \<Rightarrow> string"
  filepathDir :: "string \<Rightarrow> string"
  prevCtxFilePath :: "string option"
  files :: "string \<Rightarrow> file_state"
  mkdirFails :: "string \<Rightarrow> bool"
  writeFails :: "string \<Rightarrow> bool"
  kubeconfigFile :: "Kubeconfig option"
  modifyFails :: bool
  saveFails :: bool
  clientset :: clientset_outcome
  namespacesGet :: "string \<Rightarrow> bool \<times> get_error"
  stderr :: "(string \<times> string list) list"
  stderrFails :: bool

subsection \<open>The operating system\<close>

text \<open>
  \<^verbatim>\<open>ioutil.ReadFile\<close>, \<^verbatim>\<open>ioutil.WriteFile\<close> and \<^verbatim>\<open>os.MkdirAll\<close>. Where a write or the
  creation of a directory fails (below a component that is not a directory, for one)
  is what \<open>writeFails\<close> and \<open>mkdirFails\<close> say. A write that fails leaves the file as it
  was; directories are not modelled beyond the failure of creating them.
\<close>

definition ReadFile :: "world \<Rightarrow> string \<Rightarrow> error + string" where
  "ReadFile w path =
     (case files w path of
        NotExist \<Rightarrow> Inl ErrNotExist
      | NotADirectory \<Rightarrow> Inl ErrNotDir
      | Unreadable \<Rightarrow> Inl (External ''ReadFile'')
      | Content b \<Rightarrow> Inr b)"

definition WriteFile :: "string \<Rightarrow> string \<Rightarrow> world \<Rightarrow> error option \<times> world" where
  "WriteFile path data w =
     (if writeFails w path then (Some (External ''WriteFile''), w)
      else (None, w\<lparr>files := (files w)(path := Content data)\<rparr>))"

definition MkdirAll :: "world \<Rightarrow> string \<Rightarrow> error option" where
  "MkdirAll w d = (if mkdirFails w d then Some (External ''MkdirAll'') else None)"

text \<open>
  \<^verbatim>\<open>bytes.TrimSpace\<close>: the leading and the trailing white space removed, white space
  being the code points \<^verbatim>\<open>unicode.IsSpace\<close> accepts, in UTF-8: tab, line feed, vertical
  tab, form feed, carriage return, space, U+0085, U+00A0, U+1680, U+2000 to U+200A,
  U+2028, U+2029, U+202F, U+205F and U+3000. A byte sequence that is not the encoding
  of one of them, valid or not, is not white space. \<open>spaceWidth\<close> is the number of bytes
  of the white-space code point a string starts with, \<open>0\<close> if it starts with none;
  \<open>trimLeft\<close> drops such code points from the front as long as there are any. The
  trailing white space is dropped from the reversed string, with the encodings
  reversed.
\<close>

definition spaceEncodings :: "string list" where
  "spaceEncodings =
     [[CHR 0x09], [CHR 0x0A], [CHR 0x0B], [CHR 0x0C], [CHR 0x0D], [CHR 0x20],
      [CHR 0xC2, CHR 0x85], [CHR 0xC2, CHR 0xA0],
      [CHR 0xE1, CHR 0x9A, CHR 0x80],
      [CHR 0xE2, CHR 0x80, CHR 0x80], [CHR 0xE2, CHR 0x80, CHR 0x81],
      [CHR 0xE2, CHR 0x80, CHR 0x82], [CHR 0xE2, CHR 0x80, CHR 0x83],
      [CHR 0xE2, CHR 0x80, CHR 0x84], [CHR 0xE2, CHR 0x80, CHR 0x85],
      [CHR 0xE2, CHR 0x80, CHR 0x86], [CHR 0xE2, CHR 0x80, CHR 0x87],
      [CHR 0xE2, CHR 0x80, CHR 0x88], [CHR 0xE2, CHR 0x80, CHR 0x89],
      [CHR 0xE2, CHR 0x80, CHR 0x8A],
      [CHR 0xE2, CHR 0x80, CHR 0xA8], [CHR 0xE2, CHR 0x80, CHR 0xA9],
      [CHR 0xE2, CHR 0x80, CHR 0xAF],
      [CHR 0xE2, CHR 0x81, CHR 0x9F],
      [CHR 0xE3, CHR 0x80, CHR 0x80]]"

definition spaceWidth :: "string list \<Rightarrow> string \<Rightarrow> nat" where
  "spaceWidth encodings s =
     (case find (\<lambda>e. take (length e) s = e) encodings of None \<Rightarrow> 0 | Some e \<Rightarrow> length e)"

function trimLeft :: "string list \<Rightarrow> string \<Rightarrow> string" where
  "trimLeft encodings s =
     (if spaceWidth encodings s = 0 then s
      else trimLeft encodings (drop (spaceWidth encodings s) s))"
  by pat_completeness auto
termination
proof (relation "measure (\<lambda>(encodings, s). length s)")
  show "wf (measure (\<lambda>(encodings, s). length s))" by simp
next
  fix encodings :: "string list" and s :: string
  assume a: "spaceWidth encodings s \<noteq> 0"
  then obtain e where e: "find (\<lambda>e. take (length e) s = e) encodings = Some e" "e \<noteq> []"
    by (auto simp: spaceWidth_def split: option.splits)
  then have "take (length e) s = e" by (auto simp: find_Some_iff)
  with e(2) have "s \<noteq> []" by auto
  with a show "((encodings, drop (spaceWidth encodings s) s), (encodings, s))
      \<in> measure (\<lambda>(encodings, s). length s)"
    by simp
qed

declare trimLeft.simps [simp del]

definition TrimSpace :: "string \<Rightarrow> string" where
  "TrimSpace b = rev (trimLeft (map rev spaceEncodings) (rev (trimLeft spaceEncodings b)))"

text \<open>\<^verbatim>\<open>strings.ReplaceAll(s, old, new)\<close> for an \<^verbatim>\<open>old\<close> of one byte.\<close>

fun ReplaceAll :: "string \<Rightarrow> char \<Rightarrow> string \<Rightarrow> string" where
  "ReplaceAll [] old new = []"
| "ReplaceAll (c # s) old new = (if c = old then new else [c]) @ ReplaceAll s old new"

definition isWindows :: "world \<Rightarrow> bool" where
  "isWindows w = (if FORCE_GOOS w = ''windows'' then True else GOOS w = ''windows'')"

subsection \<open>The kubeconfig package\<close>

text \<open>
  Modelled from the spec: the methods of \<^verbatim>\<open>kubeconfig.Kubeconfig\<close> that switch.go calls,
  after the Config Store of the specification: \<^verbatim>\<open>Load() -> config-or-error\<close>,
  \<^verbatim>\<open>CurrentContext() -> name\<close>, \<^verbatim>\<open>ContextExists(name) -> bool\<close>,
  \<^verbatim>\<open>SetCurrentContext(name) -> error\<close>, \<^verbatim>\<open>NamespaceOfContext(name) -> namespace-or-error\<close>,
  \<^verbatim>\<open>SetNamespace(name, ns) -> error\<close>, \<^verbatim>\<open>Save() -> error\<close>. The specification does not say
  when the last four fail: the two namespace methods are taken to fail exactly on a
  context the configuration does not have, the other two as the environment says. A
  \<^verbatim>\<open>Save\<close> that fails leaves the file as it was.
\<close>

definition Parse :: "world \<Rightarrow> error + Kubeconfig" where
  "Parse w = (case kubeconfigFile w of None \<Rightarrow> Inl (External ''Parse'') | Some kc \<Rightarrow> Inr kc)"

definition GetCurrentContext :: "Kubeconfig \<Rightarrow> string" where
  "GetCurrentContext kc = currentContext kc"

definition ContextExists :: "Kubeconfig \<Rightarrow> string \<Rightarrow> bool" where
  "ContextExists kc name = (name \<in> set (map fst (contexts kc)))"

definition ModifyCurrentContext :: "world \<Rightarrow> Kubeconfig \<Rightarrow> string \<Rightarrow> error + Kubeconfig" where
  "ModifyCurrentContext w kc name =
     (if modifyFails w then Inl (External ''ModifyCurrentContext'')
      else Inr (kc\<lparr>currentContext := name\<rparr>))"

definition NamespaceOfContext :: "Kubeconfig \<Rightarrow> string \<Rightarrow> error + string" where
  "NamespaceOfContext kc name =
     (case map_of (contexts kc) name of
        None \<Rightarrow> Inl (External ''NamespaceOfContext'')
      | Some ns \<Rightarrow> Inr ns)"

definition SetNamespace :: "Kubeconfig \<Rightarrow> string \<Rightarrow> string \<Rightarrow> error + Kubeconfig" where
  "SetNamespace kc name ns =
     (if ContextExists kc name then
        Inr (kc\<lparr>contexts := map (\<lambda>(n, s). if n = name then (n, ns) else (n, s)) (contexts kc)\<rparr>)
      else Inl (External ''SetNamespace''))"

definition Save :: "Kubeconfig \<Rightarrow> world \<Rightarrow> error option \<times> world" where
  "Save kc w =
     (if saveFails w then (Some (External ''Save''), w)
      else (None, w\<lparr>kubeconfigFile := Some kc\<rparr>))"

subsection \<open>The previous-context record\<close>

text \<open>
  Modelled from the spec: \<^verbatim>\<open>kubectxPrevCtxFile\<close>, \<^verbatim>\<open>readLastContext\<close> and
  \<^verbatim>\<open>writeLastContext\<close> are called by switch.go and defined in a file that is not part of
  the sources at hand. The specification describes the State Store as key-to-value
  persistence where the last writer wins: the previous-context record is one global
  persisted string at a fixed place, a missing state file is empty history (a success,
  the empty string), and a file that cannot be read or written is a persistence error.
\<close>

definition kubectxPrevCtxFile :: "world \<Rightarrow> error + string" where
  "kubectxPrevCtxFile w =
     (case prevCtxFilePath w of None \<Rightarrow> Inl (External ''kubectxPrevCtxFile'') | Some path \<Rightarrow> Inr path)"

definition readLastContext :: "world \<Rightarrow> string \<Rightarrow> error + string" where
  "readLastContext w path =
     (case ReadFile w path of
        Inl err \<Rightarrow> if IsNotExist err then Inr '''' else Inl err
      | Inr b \<Rightarrow> Inr b)"

definition writeLastContext :: "string \<Rightarrow> string \<Rightarrow> world \<Rightarrow> error option \<times> world" where
  "writeLastContext path val w = WriteFile path val w"

subsection \<open>switchContext and swapContext\<close>

text \<open>
  The functions take the world and return it with their result. An error return of Go
  (\<^verbatim>\<open>"", err\<close>) is \<open>Inl err\<close>, a normal one (\<^verbatim>\<open>name, nil\<close>) is \<open>Inr name\<close>. The
  \<^verbatim>\<open>Kubeconfig\<close> that \<^verbatim>\<open>switchContext\<close> parses is local to it and closed on return.
\<close>

definition switchContext :: "string \<Rightarrow> world \<Rightarrow> (error + string) \<times> world" where
  "switchContext name w =
     (case kubectxPrevCtxFile w of
        Inl err \<Rightarrow> (Inl (Wrapf err ''failed to determine state file'' []), w)
      | Inr prevCtxFile \<Rightarrow>
     (case Parse w of
        Inl err \<Rightarrow> (Inl (Wrapf err ''kubeconfig error'' []), w)
      | Inr kc \<Rightarrow>
          let prev = GetCurrentContext kc in
          if \<not> ContextExists kc name then
            (Inl (Errorf ''no context exists with the name: \"%s\"'' [name]), w)
          else
     (case ModifyCurrentContext w kc name of
        Inl err \<Rightarrow> (Inl err, w)
      | Inr kc1 \<Rightarrow>
     (case Save kc1 w of
        (Some err, w1) \<Rightarrow> (Inl (Wrapf err ''failed to save kubeconfig'' []), w1)
      | (None, w1) \<Rightarrow>
          if prev \<noteq> name then
            (case writeLastContext prevCtxFile prev w1 of
               (Some err, w2) \<Rightarrow> (Inl (Wrapf err ''failed to save previous context name'' []), w2)
             | (None, w2) \<Rightarrow> (Inr name, w2))
          else (Inr name, w1)))))"

definition swapContext :: "world \<Rightarrow> (error + string) \<times> world" where
  "swapContext w =
     (case kubectxPrevCtxFile w of
        Inl err \<Rightarrow> (Inl (Wrapf err ''failed to determine state file'' []), w)
      | Inr prevCtxFile \<Rightarrow>
     (case readLastContext w prevCtxFile of
        Inl err \<Rightarrow> (Inl (Wrapf err ''failed to read previous context file'' []), w)
      | Inr prev \<Rightarrow>
          if prev = '''' then (Inl (Errorf ''no previous context found'' []), w)
          else switchContext prev w))"

subsection \<open>NSFile\<close>

record NSFile =
  dir :: string
  ctx :: string

definition NewNSFile :: "world \<Rightarrow> string \<Rightarrow> NSFile" where
  "NewNSFile w c = \<lparr>dir = nsFileDefaultDir w, ctx = c\<rparr>"

text \<open>The local \<^verbatim>\<open>fn\<close> of \<^verbatim>\<open>NSFile.path\<close> at its \<^verbatim>\<open>return\<close>: the name of the state file.\<close>

definition NSFile_fn :: "world \<Rightarrow> NSFile \<Rightarrow> string" where
  "NSFile_fn w f =
     (let fn = ctx f in
      if isWindows w then ReplaceAll fn (CHR '':'') ''__'' else fn)"

definition NSFile_path :: "world \<Rightarrow> NSFile \<Rightarrow> string" where
  "NSFile_path w f = filepathJoin w (dir f) (NSFile_fn w f)"

definition NSFile_Load :: "world \<Rightarrow> NSFile \<Rightarrow> error + string" where
  "NSFile_Load w f =
     (case ReadFile w (NSFile_path w f) of
        Inl err \<Rightarrow> if IsNotExist err then Inr '''' else Inl err
      | Inr b \<Rightarrow> Inr (TrimSpace b))"

definition NSFile_Save :: "NSFile \<Rightarrow> string \<Rightarrow> world \<Rightarrow> error option \<times> world" where
  "NSFile_Save f val w =
     (let d = filepathDir w (NSFile_path w f) in
      case MkdirAll w d of
        Some err \<Rightarrow> (Some err, w)
      | None \<Rightarrow> WriteFile (NSFile_path w f) val w)"

subsection \<open>namespaceExists and switchNamespace\<close>

definition newKubernetesClientSet :: "world \<Rightarrow> Kubeconfig \<Rightarrow> error + unit" where
  "newKubernetesClientSet w kc =
     (case clientset w of
        BytesFails \<Rightarrow>
          Inl (Wrapf (External ''Bytes'') ''failed to convert in-memory kubeconfig to yaml'' [])
      | RESTConfigFails \<Rightarrow>
          Inl (Wrapf (External ''RESTConfigFromKubeConfig'') ''failed to initialize config'' [])
      | NewForConfigFails \<Rightarrow> Inl (External ''NewForConfig'')
      | ClientsetOk \<Rightarrow> Inr ())"

definition namespaceExists :: "world \<Rightarrow> Kubeconfig \<Rightarrow> string \<Rightarrow> error + bool" where
  "namespaceExists w kc ns =
     (if MOCK_NAMESPACES w \<noteq> '''' then Inr (ns = ''ns1'' \<or> ns = ''ns2'')
      else
        case newKubernetesClientSet w kc of
          Inl err \<Rightarrow> Inl (Wrapf err ''failed to initialize k8s REST client'' [])
        | Inr _ \<Rightarrow>
            (case namespacesGet w ns of
               (notNil, GetNotFound) \<Rightarrow> Inr False
             | (notNil, GetNil) \<Rightarrow> Inr notNil
             | (notNil, GetFailed) \<Rightarrow>
                 Inl (Wrapf (External ''Get'') ''failed to query namespace %q from k8s API'' [ns])))"

text \<open>
  \<^verbatim>\<open>switchNamespace\<close> changes the \<^verbatim>\<open>Kubeconfig\<close> it is given through a pointer, so the
  model returns it as well: result, configuration in memory, world.
\<close>

definition switchNamespace ::
  "Kubeconfig \<Rightarrow> string \<Rightarrow> string \<Rightarrow> bool \<Rightarrow> world \<Rightarrow> (error + string) \<times> Kubeconfig \<times> world" where
  "switchNamespace kc c ns force w =
     (case NamespaceOfContext kc c of
        Inl err \<Rightarrow> (Inl (Wrapf err ''failed to get current namespace'' []), kc, w)
      | Inr curNS \<Rightarrow>
          let f = NewNSFile w c;
              checked =
                (if \<not> force then
                   (case namespaceExists w kc ns of
                      Inl err \<Rightarrow>
                        Some (Wrapf err
                          ''failed to query if namespace exists (is cluster accessible?)'' [])
                    | Inr ok \<Rightarrow>
                        if \<not> ok then Some (Errorf ''no namespace exists with name \"%s\"'' [ns])
                        else None)
                 else None)
          in
     (case checked of
        Some err \<Rightarrow> (Inl err, kc, w)
      | None \<Rightarrow>
     (case SetNamespace kc c ns of
        Inl err \<Rightarrow> (Inl (Wrapf err ''failed to change to namespace \"%s\"'' [ns]), kc, w)
      | Inr kc1 \<Rightarrow>
     (case Save kc1 w of
        (Some err, w1) \<Rightarrow> (Inl (Wrapf err ''failed to save kubeconfig file'' []), kc1, w1)
      | (None, w1) \<Rightarrow>
          if curNS \<noteq> ns then
            (case NSFile_Save f curNS w1 of
               (Some err, w2) \<Rightarrow>
                 (Inl (Wrapf err ''failed to save the previous namespace to file'' []), kc1, w2)
             | (None, w2) \<Rightarrow> (Inr ns, kc1, w2))
          else (Inr ns, kc1, w1)))))"

subsection \<open>SwitchOp.Run\<close>

text \<open>
  Modelled from the spec: \<^verbatim>\<open>printer.Success\<close> belongs to \<^verbatim>\<open>internal/printer\<close>, which is
  not part of the sources at hand; the specification counts terminal rendering among the
  external collaborators. It prints one formatted message to the writer it is given and
  hands back the writer's error. The colouring of the arguments is left out.
\<close>

definition printer_Success :: "string \<Rightarrow> string list \<Rightarrow> world \<Rightarrow> error option \<times> world" where
  "printer_Success format args w =
     (if stderrFails w then (Some (External ''Success''), w)
      else (None, w\<lparr>stderr := stderr w @ [(format, args)]\<rparr>))"

text \<open>\<^verbatim>\<open>errors.Wrap\<close> of an error that may be nil: nil stays nil.\<close>

definition Wrap :: "error option \<Rightarrow> string \<Rightarrow> error option" where
  "Wrap err message = (case err of None \<Rightarrow> None | Some e \<Rightarrow> Some (Wrapf e message []))"

text \<open>
  \<^verbatim>\<open>SwitchOp.Run\<close> on \<^verbatim>\<open>SwitchOp{Target, Namespace}\<close>; \<open>None\<close> is the nil error. The
  \<^verbatim>\<open>Kubeconfig\<close> parsed for the namespace switch is local and closed on return.
\<close>

definition SwitchOp_Run :: "string \<Rightarrow> string \<Rightarrow> world \<Rightarrow> error option \<times> world" where
  "SwitchOp_Run Target Namespace w =
     (case (if Target = ''-'' then swapContext w else switchContext Target w) of
        (Inl err, w1) \<Rightarrow> (Some (Wrapf err ''failed to switch context'' []), w1)
      | (Inr newCtx, w1) \<Rightarrow>
          if Namespace \<noteq> '''' then
            (case Parse w1 of
               Inl err \<Rightarrow> (Some (Wrapf err ''kubeconfig error'' []), w1)
             | Inr kc \<Rightarrow>
            (case switchNamespace kc newCtx Namespace False w1 of
               (Inl err, kc1, w2) \<Rightarrow> (Some (Wrapf err ''failed to switch namespace'' []), w2)
             | (Inr toNS, kc1, w2) \<Rightarrow>
                 (case printer_Success
                    ''Switched to context \"%s\" and namespace \"%s\".'' [newCtx, toNS] w2 of
                    (err, w3) \<Rightarrow> (Wrap err ''print error'', w3))))
          else
            (case printer_Success ''Switched to context \"%s\".'' [newCtx] w1 of
               (err, w2) \<Rightarrow> (Wrap err ''print error'', w2)))"

text \<open>\<^verbatim>\<open>Run\<close> of the two operations whose methods are in these files.\<close>

fun Run :: "Op \<Rightarrow> world \<Rightarrow> (error option \<times> world) option" where
  "Run (SwitchOp Target Namespace) w = Some (SwitchOp_Run Target Namespace w)"
| "Run (UnsupportedOp err) w = Some (Some err, w)"
| "Run _ w = None"

section \<open>Notions used to state the properties\<close>

text \<open>The test of the scanning loop of \<^verbatim>\<open>parseArgs\<close>: a token is a namespace flag.\<close>

definition isNamespaceFlag :: "string \<Rightarrow> bool" where
  "isNamespaceFlag a = (a = ''-n'' \<or> a = ''--namespace'')"

text \<open>An operation with its \<^verbatim>\<open>SelfCmd\<close> field, if it has one, set to the given name.\<close>

fun withSelfCmd :: "string \<Rightarrow> Op \<Rightarrow> Op" where
  "withSelfCmd s (InteractiveSwitchOp _) = InteractiveSwitchOp s"
| "withSelfCmd s (InteractiveDeleteOp _) = InteractiveDeleteOp s"
| "withSelfCmd s op = op"

text \<open>The active-context pointer of the saved configuration.\<close>

definition activeContext :: "world \<Rightarrow> string option" where
  "activeContext w = map_option GetCurrentContext (kubeconfigFile w)"

text \<open>The namespace the saved configuration records for a context.\<close>

definition savedNamespace :: "world \<Rightarrow> string \<Rightarrow> string option" where
  "savedNamespace w c =
     (case kubeconfigFile w of
        None \<Rightarrow> None
      | Some kc \<Rightarrow> (case NamespaceOfContext kc c of Inl err \<Rightarrow> None | Inr ns \<Rightarrow> Some ns))"

text \<open>
  Reading a state-file name backwards: every \<^verbatim>\<open>__\<close> becomes a colon, from the left.
  The program has no such function; it is the candidate inverse of the escaping in
  \<^verbatim>\<open>NSFile.path\<close>.
\<close>

fun unescapeColon :: "string \<Rightarrow> string" where
  "unescapeColon (a # b # s) =
     (if a = CHR ''_'' \<and> b = CHR ''_'' then CHR '':'' # unescapeColon s
      else a # unescapeColon (b # s))"
| "unescapeColon s = s"

subsection \<open>Concrete environments\<close>

text \<open>
  The configuration of the repository's tests with two contexts, on a Linux machine
  where nothing fails, no state file exists yet and the namespaces are mocked. Its
  \<open>filepathJoin\<close> puts a slash between directory and name, which is what
  \<^verbatim>\<open>filepath.Join\<close> does there when both are clean paths.
\<close>

definition exampleConfig :: Kubeconfig where
  "exampleConfig =
     \<lparr>currentContext = ''user1@cluster1'',
      contexts = [(''user1@cluster1'', ''ns1''), (''user2@cluster1'', ''default'')]\<rparr>"

definition exampleWorld :: world where
  "exampleWorld =
     \<lparr>GOOS = ''linux'', FORCE_GOOS = '''', MOCK_NAMESPACES = ''1'',
      nsFileDefaultDir = ''/home/user/.kube/kubens'',
      filepathJoin = (\<lambda>d f. d @ ''/'' @ f),
      filepathDir = (\<lambda>p. rev (tl (dropWhile (\<lambda>c. c \<noteq> CHR ''/'') (rev p)))),
      prevCtxFilePath = Some ''/home/user/.kube/kubectx'',
      files = (\<lambda>p. NotExist),
      mkdirFails = (\<lambda>d. False),
      writeFails = (\<lambda>p. False),
      kubeconfigFile = Some exampleConfig,
      modifyFails = False,
      saveFails = False,
      clientset = ClientsetOk,
      namespacesGet = (\<lambda>ns. (True, GetNil)),
      stderr = [],
      stderrFails = False\<rparr>"

text \<open>The same machine with a configuration in which one context has the empty name.\<close>

definition emptyNameWorld :: world where
  "emptyNameWorld =
     exampleWorld\<lparr>kubeconfigFile :=
       Some \<lparr>currentContext = ''b'', contexts = [('''', ''default''), (''b'', ''default'')]\<rparr>\<rparr>"

text \<open>The same machine running Windows.\<close>

definition windowsWorld :: world where
  "windowsWorld = exampleWorld\<lparr>GOOS := ''windows''\<rparr>"

text \<open>The same machine after an earlier switch away from \<^verbatim>\<open>user2@cluster1\<close>.\<close>

definition swapWorld :: world where
  "swapWorld =
     exampleWorld\<lparr>files :=
       (\<lambda>p. NotExist)(''/home/user/.kube/kubectx'' := Content ''user2@cluster1'')\<rparr>"

text \<open>
  The same machine after a namespace switch in the context \<^verbatim>\<open>x\<close>: its state file
  \<^verbatim>\<open>kubens/x\<close> is a regular file, so that for the context \<^verbatim>\<open>x/y\<close> the path
  \<^verbatim>\<open>kubens/x/y\<close> has nothing and leads through a file.
\<close>

definition notDirWorld :: world where
  "notDirWorld =
     exampleWorld\<lparr>files :=
       (\<lambda>p. NotExist)
         (''/home/user/.kube/kubens/x'' := Content ''ns1'',
          ''/home/user/.kube/kubens/x/y'' := NotADirectory)\<rparr>"

section \<open>Properties of the argument resolution\<close>

subsection \<open>The scanning loop\<close>

lemma namespaceLoop_total: "\<exists>r. namespaceLoop argv i = Some r"
proof (induction argv i rule: namespaceLoop.induct)
  case (1 argv i)
  show ?case
  proof (cases "i < length argv")
    case True
    then show ?thesis
      using "1.IH"[of "argv ! i"]
      by (subst namespaceLoop.simps) (auto simp: index_def)
  next
    case False
    then show ?thesis by (subst namespaceLoop.simps) simp
  qed
qed

text \<open>The loop stops at the first namespace flag that has a token after it.\<close>

lemma namespaceLoop_found:
  "i \<le> k \<Longrightarrow> k + 1 < length argv \<Longrightarrow> isNamespaceFlag (argv ! k) \<Longrightarrow>
   \<forall>j. i \<le> j \<and> j < k \<longrightarrow> \<not> isNamespaceFlag (argv ! j) \<Longrightarrow>
   namespaceLoop argv i = Some (Inr (argv ! (k + 1), int k))"
proof (induction argv i rule: namespaceLoop.induct)
  case (1 argv i)
  show ?case
  proof (cases "i = k")
    case True
    with "1.prems" show ?thesis
      by (subst namespaceLoop.simps) (auto simp: index_def isNamespaceFlag_def)
  next
    case False
    with "1.prems" have lt: "i < k" and nf: "\<not> isNamespaceFlag (argv ! i)" by auto
    have "namespaceLoop argv (i + 1) = Some (Inr (argv ! (k + 1), int k))"
      using "1.IH"[of "argv ! i"] "1.prems" lt nf
      by (auto simp: index_def isNamespaceFlag_def)
    with lt "1.prems" nf show ?thesis
      by (subst namespaceLoop.simps) (auto simp: index_def isNamespaceFlag_def)
  qed
qed

text \<open>What the loop leaves in its two locals keeps the later slicing in range.\<close>

lemma namespaceLoop_result:
  "namespaceLoop argv i = Some (Inr (ns, k)) \<Longrightarrow>
   (k = -1 \<and> ns = '''') \<or> (0 \<le> k \<and> nat k + 1 < length argv \<and> ns = argv ! (nat k + 1))"
proof (induction argv i rule: namespaceLoop.induct)
  case (1 argv i)
  show ?case
  proof (cases "i < length argv")
    case True
    show ?thesis
    proof (cases "argv ! i = ''-n'' \<or> argv ! i = ''--namespace''")
      case f: True
      with True "1.prems" show ?thesis
        by (subst (asm) namespaceLoop.simps) (auto simp: index_def split: if_splits)
    next
      case f: False
      with True "1.prems" have "namespaceLoop argv (i + 1) = Some (Inr (ns, k))"
        by (subst (asm) namespaceLoop.simps) (auto simp: index_def split: if_splits)
      with "1.IH"[of "argv ! i"] True f show ?thesis by (auto simp: index_def)
    qed
  next
    case False
    with "1.prems" show ?thesis
      by (subst (asm) namespaceLoop.simps) auto
  qed
qed

lemma namespaceLoop_Inl:
  "namespaceLoop argv i = Some (Inl op) \<Longrightarrow> kindOf op = KUnsupported"
proof (induction argv i rule: namespaceLoop.induct)
  case (1 argv i)
  show ?case
  proof (cases "i < length argv \<and> \<not> (argv ! i = ''-n'' \<or> argv ! i = ''--namespace'')")
    case True
    with "1.prems" have "namespaceLoop argv (i + 1) = Some (Inl op)"
      by (subst (asm) namespaceLoop.simps) (auto simp: index_def split: if_splits)
    with "1.IH"[of "argv ! i"] True show ?thesis by (auto simp: index_def)
  next
    case False
    with "1.prems" show ?thesis
      by (subst (asm) namespaceLoop.simps) (auto simp: index_def split: if_splits)
  qed
qed

subsection \<open>No panic, and the part of the program name\<close>

lemma remainingArgsOf_total:
  "(k = -1) \<or> (0 \<le> k \<and> nat k + 1 < length argv) \<Longrightarrow> \<exists>r. remainingArgsOf argv k = Some r"
  by (auto simp: remainingArgsOf_def slice_def)

lemma classify_total: "\<exists>op. classify interactive self ns r = Some op"
  by (auto simp: classify_def index_def split: option.splits)

lemma parseArgs_total: "\<exists>op. parseArgs interactive self argv = Some op"
proof (cases "argv = []")
  case True
  then show ?thesis by (simp add: parseArgs_def)
next
  case ne: False
  show ?thesis
  proof (cases "argv ! 0 = ''-d''")
    case True
    with ne show ?thesis
      by (cases argv) (auto simp: parseArgs_def index_def slice_def)
  next
    case nd: False
    obtain r where r: "namespaceLoop argv 0 = Some r" using namespaceLoop_total by blast
    show ?thesis
    proof (cases r)
      case (Inl op)
      with ne nd r show ?thesis by (simp add: parseArgs_def index_def)
    next
      case (Inr p)
      obtain ns k where p: "p = (ns, k)" by (cases p)
      from r Inr p
      have "(k = -1 \<and> ns = '''') \<or> (0 \<le> k \<and> nat k + 1 < length argv \<and> ns = argv ! (nat k + 1))"
        using namespaceLoop_result by simp
      then obtain ra where ra: "remainingArgsOf argv k = Some ra"
        using remainingArgsOf_total[of k argv] by blast
      obtain op where "classify interactive self ns ra = Some op" using classify_total by blast
      with ne nd r Inr p ra show ?thesis by (simp add: parseArgs_def index_def)
    qed
  qed
qed

lemma classify_self:
  "classify interactive self' ns r = map_option (withSelfCmd self') (classify interactive self ns r)"
  by (auto simp: classify_def index_def split: option.splits)

lemma parseArgs_self:
  "parseArgs interactive self' argv = map_option (withSelfCmd self') (parseArgs interactive self argv)"
proof (cases "argv = []")
  case True
  then show ?thesis by (simp add: parseArgs_def)
next
  case ne: False
  show ?thesis
  proof (cases "argv ! 0 = ''-d''")
    case True
    with ne show ?thesis
      by (cases argv) (auto simp: parseArgs_def index_def slice_def)
  next
    case nd: False
    obtain r where r: "namespaceLoop argv 0 = Some r" using namespaceLoop_total by blast
    show ?thesis
    proof (cases r)
      case (Inl op)
      with r have "kindOf op = KUnsupported" using namespaceLoop_Inl by simp
      then have "withSelfCmd self' op = op" by (cases op) auto
      with Inl ne nd r show ?thesis by (simp add: parseArgs_def index_def)
    next
      case (Inr p)
      obtain ns k where p: "p = (ns, k)" by (cases p)
      show ?thesis
      proof (cases "remainingArgsOf argv k")
        case None
        with ne nd r Inr p show ?thesis by (simp add: parseArgs_def index_def)
      next
        case (Some ra)
        with ne nd r Inr p classify_self[of interactive self' ns ra self] show ?thesis
          by (simp add: parseArgs_def index_def)
      qed
    qed
  qed
qed

text \<open>
  Claim C8. Argument resolution is total and deterministic. \<^verbatim>\<open>parseArgs\<close> never panics:
  on every token sequence it returns one operation. The operation is a function of the
  token sequence and of the terminal's answer; the name the program was started under
  (\<^verbatim>\<open>os.Args[0]\<close>) shows only in the \<^verbatim>\<open>SelfCmd\<close> field of the two interactive
  operations, so that two runs on the same tokens with the same answer build the same
  operation, each carrying its own program name there.
\<close>

theorem parseArgs_total_deterministic:
  "(\<exists>op. parseArgs interactive self argv = Some op) \<and>
   parseArgs interactive self' argv =
     map_option (withSelfCmd self') (parseArgs interactive self argv) \<and>
   map_option kindOf (parseArgs interactive self' argv) =
     map_option kindOf (parseArgs interactive self argv)"
proof -
  have "kindOf (withSelfCmd s op) = kindOf op" for s op by (cases op) auto
  then have "map_option kindOf (map_option (withSelfCmd self') x) = map_option kindOf x" for x
    by (cases x) auto
  then show ?thesis
    using parseArgs_total[of interactive self argv] parseArgs_self[of interactive self' argv self]
    by simp
qed

subsection \<open>The namespace flag\<close>

text \<open>
  With the first namespace flag at position \<open>k\<close> and a token after it, \<^verbatim>\<open>parseArgs\<close>
  classifies the tokens that are left once the flag and its value are taken out.
\<close>

lemma parseArgs_flag:
  assumes "argv \<noteq> []" "argv ! 0 \<noteq> ''-d''" "k + 1 < length argv" "isNamespaceFlag (argv ! k)"
    "\<forall>j<k. \<not> isNamespaceFlag (argv ! j)"
  shows "parseArgs interactive self argv =
         classify interactive self (argv ! (k + 1)) (take k argv @ drop (k + 2) argv)"
proof -
  have "namespaceLoop argv 0 = Some (Inr (argv ! (k + 1), int k))"
    using assms by (intro namespaceLoop_found) auto
  moreover have "remainingArgsOf argv (int k) = Some (take k argv @ drop (k + 2) argv)"
    using assms by (simp add: remainingArgsOf_def slice_def nat_add_distrib)
  ultimately show ?thesis using assms by (simp add: parseArgs_def index_def)
qed

text \<open>
  Claim C5, as stated, fails: the tokens \<^verbatim>\<open>-n ""\<close> have the flag and its value consumed
  and nothing left, and resolve to \<^verbatim>\<open>ListOp\<close> on a terminal that is not interactive.
  The guard of the program is \<^verbatim>\<open>namespace != ""\<close>, so an empty value counts as no
  namespace requested.
\<close>

theorem bare_namespace_empty_value_counterexample:
  "namespaceLoop [''-n'', ''''] 0 = Some (Inr ('''', 0)) \<and>
   remainingArgsOf [''-n'', ''''] 0 = Some [] \<and>
   parseArgs False ''kubectx'' [''-n'', ''''] = Some ListOp"
  by (simp add: parseArgs_def namespaceLoop.simps index_def remainingArgsOf_def slice_def
      classify_def)

text \<open>
  Claim C5, amended. For every token sequence that does not start with \<^verbatim>\<open>-d\<close>, whose
  first namespace flag (\<^verbatim>\<open>-n\<close> or \<^verbatim>\<open>--namespace\<close>) stands at position \<open>k\<close> with a value
  token after it, where no token is left once the two are taken out and the value is
  not the empty string, the resolver returns \<^verbatim>\<open>UnsupportedOp\<close> with the reason
  "context name is required when using -n flag".
\<close>

theorem bare_namespace_unsupported:
  assumes "argv \<noteq> []" "argv ! 0 \<noteq> ''-d''" "k + 1 < length argv" "isNamespaceFlag (argv ! k)"
    "\<forall>j<k. \<not> isNamespaceFlag (argv ! j)" "take k argv @ drop (k + 2) argv = []"
    "argv ! (k + 1) \<noteq> ''''"
  shows "parseArgs interactive self argv =
     Some (UnsupportedOp (Errorf ''context name is required when using -n flag'' []))"
proof -
  have "parseArgs interactive self argv = classify interactive self (argv ! (k + 1)) []"
    using parseArgs_flag[OF assms(1-5)] by (simp only: assms(6))
  then show ?thesis using assms(7) by (simp add: classify_def)
qed

theorem bare_namespace_unsupported_witness:
  "parseArgs False ''kubectx'' [''-n'', ''ns1''] =
     Some (UnsupportedOp (Errorf ''context name is required when using -n flag'' []))"
  using bare_namespace_unsupported[of "[''-n'', ''ns1'']" 0 False "''kubectx''"]
  by (simp add: isNamespaceFlag_def)

text \<open>
  Claim C6, as stated, fails for a context named \<^verbatim>\<open>-d\<close>: in front, the token is the
  delete flag and the rest are the contexts to delete; behind the namespace flag, it is
  an unsupported option. Neither is a switch.
\<close>

theorem flag_position_counterexample:
  "parseArgs False ''kubectx'' [''-d'', ''-n'', ''ns1''] = Some (DeleteOp [''-n'', ''ns1'']) \<and>
   parseArgs False ''kubectx'' [''-n'', ''ns1'', ''-d''] =
     Some (UnsupportedOp (Errorf (''unsupported option '%s'' @ [CHR 0x27]) [''-d'']))"
  by (simp add: parseArgs_def namespaceLoop.simps index_def remainingArgsOf_def slice_def
      classify_def parseRenameSyntax_def HasPrefix_def)

text \<open>
  Claim C6, amended. For every context name \<open>c\<close> that does not start with \<^verbatim>\<open>-\<close> (or is
  \<^verbatim>\<open>-\<close> itself) and is not of the rename form, every namespace value \<open>n\<close> and either
  spelling \<open>f\<close> of the namespace flag, the token sequences \<open>[f, n, c]\<close> and \<open>[c, f, n]\<close>
  resolve to the same operation \<^verbatim>\<open>SwitchOp{Target: c, Namespace: n}\<close>. Only the first
  occurrence of the flag is consumed: with a second flag and value behind, three tokens
  are left and the resolver answers "too many arguments".
\<close>

theorem flag_position_irrelevant:
  assumes "\<not> HasPrefix c ''-'' \<or> c = ''-''" "parseRenameSyntax c = None" "isNamespaceFlag f"
  shows "parseArgs interactive self [f, n, c] = Some (SwitchOp c n) \<and>
         parseArgs interactive self [c, f, n] = Some (SwitchOp c n) \<and>
         (isNamespaceFlag f' \<longrightarrow>
            parseArgs interactive self [f, n, c, f', n'] =
              Some (UnsupportedOp (Errorf ''too many arguments'' [])) \<and>
            parseArgs interactive self [c, f, n, f', n'] =
              Some (UnsupportedOp (Errorf ''too many arguments'' [])))"
proof -
  have c: "c \<noteq> ''-d''" "\<not> isNamespaceFlag c" "c \<noteq> ''--help''" "c \<noteq> ''-h''"
    "c \<noteq> ''--version''" "c \<noteq> ''-V''" "c \<noteq> ''--current''" "c \<noteq> ''-c''"
    "c \<noteq> ''--unset''" "c \<noteq> ''-u''"
    using assms(1) by (auto simp: HasPrefix_def isNamespaceFlag_def)
  have f: "f \<noteq> ''-d''" using assms(3) by (auto simp: isNamespaceFlag_def)
  have cl: "classify interactive self n [c] = Some (SwitchOp c n)"
    using c assms(1,2) by (auto simp: classify_def index_def)
  have 1: "parseArgs interactive self [f, n, c] = Some (SwitchOp c n)"
    using parseArgs_flag[of "[f, n, c]" 0 interactive self] f assms(3) cl by simp
  have 2: "parseArgs interactive self [c, f, n] = Some (SwitchOp c n)"
    using parseArgs_flag[of "[c, f, n]" 1 interactive self] c assms(3) cl by simp
  have 3: "parseArgs interactive self [f, n, c, f', n'] =
      Some (UnsupportedOp (Errorf ''too many arguments'' []))"
    using parseArgs_flag[of "[f, n, c, f', n']" 0 interactive self] f assms(3)
    by (simp add: classify_def)
  have 4: "parseArgs interactive self [c, f, n, f', n'] =
      Some (UnsupportedOp (Errorf ''too many arguments'' []))"
    using parseArgs_flag[of "[c, f, n, f', n']" 1 interactive self] c assms(3)
    by (simp add: classify_def)
  from 1 2 3 4 show ?thesis by simp
qed

theorem flag_position_irrelevant_witness:
  "parseArgs False ''kubectx'' [''-n'', ''ns1'', ''ctx1''] = Some (SwitchOp ''ctx1'' ''ns1'') \<and>
   parseArgs False ''kubectx'' [''ctx1'', ''-n'', ''ns1''] = Some (SwitchOp ''ctx1'' ''ns1'') \<and>
   parseArgs False ''kubectx'' [''-n'', ''ns1'', ''ctx1'', ''--namespace'', ''ns2''] =
     Some (UnsupportedOp (Errorf ''too many arguments'' [])) \<and>
   parseArgs False ''kubectx'' [''ctx1'', ''-n'', ''ns1'', ''--namespace'', ''ns2''] =
     Some (UnsupportedOp (Errorf ''too many arguments'' []))"
  using flag_position_irrelevant[of "''ctx1''" "''-n''" False "''kubectx''" "''ns1''"
      "''--namespace''" "''ns2''"]
  by (simp add: isNamespaceFlag_def HasPrefix_def parseRenameSyntax_def)

section \<open>Properties of the context switch\<close>

lemma switchContext_ok:
  assumes "prevCtxFilePath w = Some p" "kubeconfigFile w = Some kc" "ContextExists kc name"
    "\<not> modifyFails w" "\<not> saveFails w" "\<not> writeFails w p"
  shows "switchContext name w =
     (Inr name,
      if currentContext kc \<noteq> name
      then w\<lparr>kubeconfigFile := Some (kc\<lparr>currentContext := name\<rparr>),
             files := (files w)(p := Content (currentContext kc))\<rparr>
      else w\<lparr>kubeconfigFile := Some (kc\<lparr>currentContext := name\<rparr>)\<rparr>)"
  using assms
  by (simp add: switchContext_def kubectxPrevCtxFile_def Parse_def GetCurrentContext_def
      ModifyCurrentContext_def Save_def writeLastContext_def WriteFile_def)

lemma switchContext_step:
  assumes "prevCtxFilePath w = Some p" "kubeconfigFile w = Some kc" "ContextExists kc name"
    "\<not> modifyFails w" "\<not> saveFails w" "\<not> writeFails w p"
  shows "\<exists>w'. switchContext name w = (Inr name, w') \<and>
     prevCtxFilePath w' = Some p \<and> kubeconfigFile w' = Some (kc\<lparr>currentContext := name\<rparr>) \<and>
     \<not> modifyFails w' \<and> \<not> saveFails w' \<and> \<not> writeFails w' p \<and>
     (currentContext kc \<noteq> name \<longrightarrow> files w' p = Content (currentContext kc))"
  using assms by (simp add: switchContext_ok)

lemma swapContext_ok:
  assumes "prevCtxFilePath w = Some p" "files w p = Content prev" "prev \<noteq> ''''"
  shows "swapContext w = switchContext prev w"
  using assms
  by (simp add: swapContext_def kubectxPrevCtxFile_def readLastContext_def ReadFile_def)

lemma ContextExists_modify:
  "ContextExists (kc\<lparr>currentContext := n\<rparr>) c = ContextExists kc c"
  by (simp add: ContextExists_def)

text \<open>
  Claim C1, as stated, fails for an existing context whose name is the empty string:
  after switching to it and then to \<^verbatim>\<open>b\<close>, the previous-context record holds the empty
  string, which \<^verbatim>\<open>swapContext\<close> reads as "no previous context found"; \<^verbatim>\<open>b\<close> stays active.
\<close>

theorem swap_back_empty_name_counterexample:
  "ContextExists (the (kubeconfigFile emptyNameWorld)) '''' \<and>
   ContextExists (the (kubeconfigFile emptyNameWorld)) ''b'' \<and>
   (let (r1, w1) = switchContext '''' emptyNameWorld;
        (r2, w2) = switchContext ''b'' w1;
        (r3, w3) = swapContext w2
    in r1 = Inr '''' \<and> r2 = Inr ''b'' \<and>
       r3 = Inl (Errorf ''no previous context found'' []) \<and> activeContext w3 = Some ''b'')"
  by (simp add: emptyNameWorld_def exampleWorld_def switchContext_def swapContext_def
      kubectxPrevCtxFile_def Parse_def GetCurrentContext_def ContextExists_def
      ModifyCurrentContext_def Save_def writeLastContext_def WriteFile_def
      readLastContext_def ReadFile_def activeContext_def IsNotExist_def Let_def)

text \<open>
  Claim C1, amended. For every pair of existing context names \<open>A\<close> and \<open>B\<close> with
  \<open>A \<noteq> B\<close>, neither of them the empty string, where the state file can be determined
  and written and the configuration can be loaded, changed and saved:
  \<^verbatim>\<open>switchContext(A)\<close>, then \<^verbatim>\<open>switchContext(B)\<close>, then \<^verbatim>\<open>swapContext()\<close> succeed and leave
  \<open>A\<close> as the active context; \<^verbatim>\<open>swapContext()\<close> once more returns to \<open>B\<close>.
\<close>

theorem switch_switch_swap_toggles:
  assumes "A \<noteq> B" "A \<noteq> ''''" "B \<noteq> ''''"
    "prevCtxFilePath w = Some p" "kubeconfigFile w = Some kc"
    "ContextExists kc A" "ContextExists kc B"
    "\<not> modifyFails w" "\<not> saveFails w" "\<not> writeFails w p"
  shows "let (r1, w1) = switchContext A w;
             (r2, w2) = switchContext B w1;
             (r3, w3) = swapContext w2;
             (r4, w4) = swapContext w3
         in r1 = Inr A \<and> r2 = Inr B \<and>
            r3 = Inr A \<and> activeContext w3 = Some A \<and>
            r4 = Inr B \<and> activeContext w4 = Some B"
proof -
  let ?kA = "kc\<lparr>currentContext := A\<rparr>" and ?kB = "kc\<lparr>currentContext := B\<rparr>"
  have exA: "ContextExists ?kA B" "ContextExists ?kB A"
    using assms(6,7) by (simp_all add: ContextExists_modify)
  from switchContext_step[OF assms(4,5,6,8,9,10)]
  obtain w1 where 1: "switchContext A w = (Inr A, w1)"
    and w1: "prevCtxFilePath w1 = Some p" "kubeconfigFile w1 = Some ?kA"
       "\<not> modifyFails w1" "\<not> saveFails w1" "\<not> writeFails w1 p"
    by blast
  from switchContext_step[OF w1(1,2) exA(1) w1(3,4,5)] assms(1)
  obtain w2 where 2: "switchContext B w1 = (Inr B, w2)"
    and w2: "prevCtxFilePath w2 = Some p" "kubeconfigFile w2 = Some ?kB"
       "\<not> modifyFails w2" "\<not> saveFails w2" "\<not> writeFails w2 p" "files w2 p = Content A"
    by auto
  from switchContext_step[OF w2(1,2) exA(2) w2(3,4,5)] assms(1)
  obtain w3 where 3: "switchContext A w2 = (Inr A, w3)"
    and w3: "prevCtxFilePath w3 = Some p" "kubeconfigFile w3 = Some ?kA"
       "\<not> modifyFails w3" "\<not> saveFails w3" "\<not> writeFails w3 p" "files w3 p = Content B"
    by auto
  from switchContext_step[OF w3(1,2) exA(1) w3(3,4,5)]
  obtain w4 where 4: "switchContext B w3 = (Inr B, w4)"
    and w4: "kubeconfigFile w4 = Some ?kB"
    by auto
  have s3: "swapContext w2 = (Inr A, w3)"
    using swapContext_ok[OF w2(1) w2(6) assms(2)] 3 by simp
  have s4: "swapContext w3 = (Inr B, w4)"
    using swapContext_ok[OF w3(1) w3(6) assms(3)] 4 by simp
  show ?thesis
    using 1 2 s3 s4 w3(2) w4 by (simp add: activeContext_def GetCurrentContext_def)
qed

theorem switch_switch_swap_toggles_witness:
  "''user1@cluster1'' \<noteq> ''user2@cluster1'' \<and>
   ContextExists exampleConfig ''user1@cluster1'' \<and>
   ContextExists exampleConfig ''user2@cluster1'' \<and>
   (let (r1, w1) = switchContext ''user1@cluster1'' exampleWorld;
        (r2, w2) = switchContext ''user2@cluster1'' w1;
        (r3, w3) = swapContext w2;
        (r4, w4) = swapContext w3
    in r1 = Inr ''user1@cluster1'' \<and> r2 = Inr ''user2@cluster1'' \<and>
       r3 = Inr ''user1@cluster1'' \<and> activeContext w3 = Some ''user1@cluster1'' \<and>
       r4 = Inr ''user2@cluster1'' \<and> activeContext w4 = Some ''user2@cluster1'')"
proof -
  have h: "''user1@cluster1'' \<noteq> ''user2@cluster1''" "''user1@cluster1'' \<noteq> ''''"
    "''user2@cluster1'' \<noteq> ''''"
    "prevCtxFilePath exampleWorld = Some ''/home/user/.kube/kubectx''"
    "kubeconfigFile exampleWorld = Some exampleConfig"
    "ContextExists exampleConfig ''user1@cluster1''"
    "ContextExists exampleConfig ''user2@cluster1''"
    "\<not> modifyFails exampleWorld" "\<not> saveFails exampleWorld"
    "\<not> writeFails exampleWorld ''/home/user/.kube/kubectx''"
    by (simp_all add: exampleWorld_def exampleConfig_def ContextExists_def)
  show ?thesis using switch_switch_swap_toggles[OF h] h(1,6,7) by blast
qed

text \<open>
  Claim C4. For every name that is not a known context, \<^verbatim>\<open>switchContext(name)\<close> fails
  with the error "no context exists with the name" and returns the world as it found
  it: the active-context pointer, the saved configuration and the previous-context
  record are unchanged. The first part is for a configuration that loads; the second
  says that whichever error comes first when no loaded configuration knows the name,
  nothing has been changed.
\<close>

theorem switchContext_unknown_name:
  "(prevCtxFilePath w = Some p \<and> kubeconfigFile w = Some kc \<and> \<not> ContextExists kc name \<longrightarrow>
      switchContext name w =
        (Inl (Errorf ''no context exists with the name: \"%s\"'' [name]), w)) \<and>
   (\<not> (\<exists>kc. kubeconfigFile w = Some kc \<and> ContextExists kc name) \<longrightarrow>
      (\<exists>err. switchContext name w = (Inl err, w)))"
  by (auto simp: switchContext_def kubectxPrevCtxFile_def Parse_def Let_def
      split: option.splits)

theorem switchContext_unknown_name_witness:
  "\<not> ContextExists exampleConfig ''unknown-context'' \<and>
   switchContext ''unknown-context'' exampleWorld =
     (Inl (Errorf ''no context exists with the name: \"%s\"'' [''unknown-context'']),
      exampleWorld)"
proof -
  have h: "prevCtxFilePath exampleWorld = Some ''/home/user/.kube/kubectx''"
    "kubeconfigFile exampleWorld = Some exampleConfig"
    "\<not> ContextExists exampleConfig ''unknown-context''"
    by (simp_all add: exampleWorld_def exampleConfig_def ContextExists_def)
  show ?thesis
    using switchContext_unknown_name[of exampleWorld "''/home/user/.kube/kubectx''"
        exampleConfig "''unknown-context''"] h
    by blast
qed

section \<open>Properties of the previous-value records\<close>

text \<open>
  Claim C2. A switch whose target equals the currently active value leaves the
  previous-value record unchanged, and a successful switch to a different target
  overwrites it with the value that was active before the change:
  \<^item> \<^verbatim>\<open>switchContext(name)\<close> with \<open>name\<close> the current context of the configuration leaves
    every state file as it was, whatever else happens;
  \<^item> a successful \<^verbatim>\<open>switchContext(name)\<close> away from another current context leaves that
    context's name in the previous-context record;
  \<^item> \<^verbatim>\<open>switchNamespace\<close> to the namespace the context already has leaves every state
    file as it was;
  \<^item> a successful \<^verbatim>\<open>switchNamespace\<close> to a different namespace leaves the earlier
    namespace in the state file of that context.
\<close>

theorem previous_record_noop_and_overwrite:
  "(Parse w = Inr kc \<and> GetCurrentContext kc = name \<longrightarrow>
      files (snd (switchContext name w)) = files w) \<and>
   (Parse w = Inr kc \<and> GetCurrentContext kc \<noteq> name \<and> prevCtxFilePath w = Some p \<and>
    switchContext name w = (Inr r, w') \<longrightarrow>
      readLastContext w' p = Inr (GetCurrentContext kc)) \<and>
   (NamespaceOfContext kc1 c = Inr ns \<longrightarrow>
      files (snd (snd (switchNamespace kc1 c ns force w))) = files w) \<and>
   (NamespaceOfContext kc1 c = Inr cur \<and> cur \<noteq> ns \<and>
    switchNamespace kc1 c ns force w = (Inr r1, kc2, w2) \<longrightarrow>
      files w2 (NSFile_path w (NewNSFile w c)) = Content cur)"
proof (intro conjI impI)
  assume "Parse w = Inr kc \<and> GetCurrentContext kc = name"
  then show "files (snd (switchContext name w)) = files w"
    by (auto simp: switchContext_def Let_def Save_def ModifyCurrentContext_def
        split: sum.splits option.splits prod.splits if_splits)
next
  assume "Parse w = Inr kc \<and> GetCurrentContext kc \<noteq> name \<and> prevCtxFilePath w = Some p \<and>
    switchContext name w = (Inr r, w')"
  then show "readLastContext w' p = Inr (GetCurrentContext kc)"
    by (auto simp: switchContext_def Let_def Save_def ModifyCurrentContext_def
        kubectxPrevCtxFile_def writeLastContext_def WriteFile_def readLastContext_def
        ReadFile_def
        split: sum.splits option.splits prod.splits if_splits)
next
  assume "NamespaceOfContext kc1 c = Inr ns"
  then show "files (snd (snd (switchNamespace kc1 c ns force w))) = files w"
    by (auto simp: switchNamespace_def Let_def Save_def
        split: sum.splits option.splits prod.splits if_splits)
next
  assume "NamespaceOfContext kc1 c = Inr cur \<and> cur \<noteq> ns \<and>
    switchNamespace kc1 c ns force w = (Inr r1, kc2, w2)"
  then show "files w2 (NSFile_path w (NewNSFile w c)) = Content cur"
    by (auto simp: switchNamespace_def Let_def Save_def NSFile_Save_def MkdirAll_def
        WriteFile_def NSFile_path_def NSFile_fn_def NewNSFile_def isWindows_def
        split: sum.splits option.splits prod.splits if_splits)
qed

theorem previous_record_noop_and_overwrite_witness:
  "files (snd (switchContext ''user1@cluster1'' exampleWorld)) = files exampleWorld \<and>
   fst (switchContext ''user2@cluster1'' exampleWorld) = Inr ''user2@cluster1'' \<and>
   readLastContext (snd (switchContext ''user2@cluster1'' exampleWorld))
     ''/home/user/.kube/kubectx'' = Inr ''user1@cluster1'' \<and>
   files (snd (snd (switchNamespace exampleConfig ''user1@cluster1'' ''ns1'' False exampleWorld)))
     = files exampleWorld \<and>
   fst (switchNamespace exampleConfig ''user1@cluster1'' ''ns2'' False exampleWorld)
     = Inr ''ns2'' \<and>
   files (snd (snd (switchNamespace exampleConfig ''user1@cluster1'' ''ns2'' False exampleWorld)))
     ''/home/user/.kube/kubens/user1@cluster1'' = Content ''ns1''"
proof -
  have p: "Parse exampleWorld = Inr exampleConfig"
    "GetCurrentContext exampleConfig = ''user1@cluster1''"
    "prevCtxFilePath exampleWorld = Some ''/home/user/.kube/kubectx''"
    "NamespaceOfContext exampleConfig ''user1@cluster1'' = Inr ''ns1''"
    "NSFile_path exampleWorld (NewNSFile exampleWorld ''user1@cluster1'') =
       ''/home/user/.kube/kubens/user1@cluster1''"
    by (simp_all add: Parse_def exampleWorld_def exampleConfig_def GetCurrentContext_def
        NamespaceOfContext_def NSFile_path_def NSFile_fn_def NewNSFile_def isWindows_def Let_def)
  obtain w' where s: "switchContext ''user2@cluster1'' exampleWorld = (Inr ''user2@cluster1'', w')"
    using switchContext_ok[of exampleWorld "''/home/user/.kube/kubectx''" exampleConfig
        "''user2@cluster1''"]
    by (simp add: exampleWorld_def exampleConfig_def ContextExists_def)
  obtain kc2 w2 where
    n: "switchNamespace exampleConfig ''user1@cluster1'' ''ns2'' False exampleWorld
          = (Inr ''ns2'', kc2, w2)"
    by (simp add: switchNamespace_def exampleWorld_def exampleConfig_def NamespaceOfContext_def
        namespaceExists_def SetNamespace_def ContextExists_def Save_def NSFile_Save_def
        MkdirAll_def WriteFile_def Let_def)
  show ?thesis
    using previous_record_noop_and_overwrite[of exampleWorld exampleConfig "''user1@cluster1''"
        _ _ _ exampleConfig "''user1@cluster1''" "''ns1''" False]
      previous_record_noop_and_overwrite[of exampleWorld exampleConfig "''user2@cluster1''"
        "''/home/user/.kube/kubectx''" "''user2@cluster1''" w' exampleConfig
        "''user1@cluster1''" "''ns2''" False "''ns1''" "''ns2''" kc2 w2]
      p s n
    by simp
qed

section \<open>Properties of the namespace switch\<close>

text \<open>
  Claim C3. With the existence check enabled (\<^verbatim>\<open>force\<close> false) and a context of the
  configuration: if \<^verbatim>\<open>namespaceExists\<close> reports the namespace absent, \<^verbatim>\<open>switchNamespace\<close>
  fails with "no namespace exists with name" and neither the configuration in memory
  nor anything saved has changed; if the query itself fails, \<^verbatim>\<open>switchNamespace\<close> fails
  with that error wrapped in "failed to query if namespace exists", likewise with
  nothing changed.
\<close>

theorem switchNamespace_absent_or_query_error:
  assumes "NamespaceOfContext kc c = Inr cur"
  shows "(namespaceExists w kc ns = Inr False \<longrightarrow>
            switchNamespace kc c ns False w =
              (Inl (Errorf ''no namespace exists with name \"%s\"'' [ns]), kc, w)) \<and>
         (namespaceExists w kc ns = Inl err \<longrightarrow>
            switchNamespace kc c ns False w =
              (Inl (Wrapf err
                 ''failed to query if namespace exists (is cluster accessible?)'' []),
               kc, w))"
  using assms by (simp add: switchNamespace_def Let_def)

theorem switchNamespace_absent_or_query_error_witness:
  "switchNamespace exampleConfig ''user1@cluster1'' ''unknown-ns'' False exampleWorld =
     (Inl (Errorf ''no namespace exists with name \"%s\"'' [''unknown-ns'']),
      exampleConfig, exampleWorld) \<and>
   switchNamespace exampleConfig ''user1@cluster1'' ''ns2'' False
       (exampleWorld\<lparr>MOCK_NAMESPACES := '''', namespacesGet := (\<lambda>ns. (False, GetFailed))\<rparr>) =
     (Inl (Wrapf (Wrapf (External ''Get'') ''failed to query namespace %q from k8s API'' [''ns2''])
             ''failed to query if namespace exists (is cluster accessible?)'' []),
      exampleConfig,
      exampleWorld\<lparr>MOCK_NAMESPACES := '''', namespacesGet := (\<lambda>ns. (False, GetFailed))\<rparr>)"
proof -
  let ?w = "exampleWorld\<lparr>MOCK_NAMESPACES := '''', namespacesGet := (\<lambda>ns. (False, GetFailed))\<rparr>"
  have h: "NamespaceOfContext exampleConfig ''user1@cluster1'' = Inr ''ns1''"
    "namespaceExists exampleWorld exampleConfig ''unknown-ns'' = Inr False"
    "namespaceExists ?w exampleConfig ''ns2'' =
       Inl (Wrapf (External ''Get'') ''failed to query namespace %q from k8s API'' [''ns2''])"
    by (simp_all add: exampleWorld_def exampleConfig_def NamespaceOfContext_def
        namespaceExists_def newKubernetesClientSet_def)
  show ?thesis
    using switchNamespace_absent_or_query_error[OF h(1), of exampleWorld "''unknown-ns''"]
      switchNamespace_absent_or_query_error[OF h(1), of ?w "''ns2''"] h(2,3)
    by simp
qed

section \<open>Properties of the namespace state files\<close>

text \<open>
  Claim C9, as stated, fails where the state file is missing because its path leads
  through a regular file. With a state file for the context \<^verbatim>\<open>x\<close> in place, the state
  file of the context \<^verbatim>\<open>x/y\<close> does not exist; reading it fails with "not a directory",
  which \<^verbatim>\<open>os.IsNotExist\<close> does not accept, and \<^verbatim>\<open>NSFile.Load\<close> returns that error.
\<close>

theorem NSFile_Load_not_a_directory_counterexample:
  "NSFile_path notDirWorld (NewNSFile notDirWorld ''x/y'') = ''/home/user/.kube/kubens/x/y'' \<and>
   fileMissing (files notDirWorld (NSFile_path notDirWorld (NewNSFile notDirWorld ''x/y''))) \<and>
   NSFile_Load notDirWorld (NewNSFile notDirWorld ''x/y'') = Inl ErrNotDir \<and>
   NSFile_Load notDirWorld (NewNSFile notDirWorld ''x/y'') \<noteq> Inr ''''"
  by (simp add: notDirWorld_def exampleWorld_def NSFile_path_def NSFile_fn_def NewNSFile_def
      isWindows_def Let_def fileMissing_def NSFile_Load_def ReadFile_def IsNotExist_def)

text \<open>
  Claim C9, amended. For every context whose previous-namespace state file does not
  exist in the way the operating system reports as "no such file or directory" (the
  file is missing and no component of its path is a regular file), \<^verbatim>\<open>NSFile.Load\<close>
  succeeds and returns the empty string: that missing state file means empty history
  and is a success path, not an error.
\<close>

theorem NSFile_Load_missing_file:
  "files w (NSFile_path w f) = NotExist \<Longrightarrow>
   fileMissing (files w (NSFile_path w f)) \<and> NSFile_Load w f = Inr ''''"
  by (simp add: NSFile_Load_def ReadFile_def IsNotExist_def fileMissing_def)

theorem NSFile_Load_missing_file_witness:
  "files exampleWorld (NSFile_path exampleWorld (NewNSFile exampleWorld ''user1@cluster1''))
     = NotExist \<and>
   NSFile_Load exampleWorld (NewNSFile exampleWorld ''user1@cluster1'') = Inr ''''"
  using NSFile_Load_missing_file[of exampleWorld "NewNSFile exampleWorld ''user1@cluster1''"]
  by (simp add: exampleWorld_def)

lemma ReplaceAll_no_colon: "CHR '':'' \<notin> set (ReplaceAll s (CHR '':'') ''__'')"
  by (induction s) auto

lemma ReplaceAll_id: "CHR '':'' \<notin> set s \<Longrightarrow> ReplaceAll s (CHR '':'') new = s"
  by (induction s) auto

lemma unescapeColon_Cons: "a \<noteq> CHR ''_'' \<Longrightarrow> unescapeColon (a # s) = a # unescapeColon s"
  by (cases s) auto

lemma unescape_ReplaceAll:
  "CHR ''_'' \<notin> set s \<Longrightarrow> unescapeColon (ReplaceAll s (CHR '':'') ''__'') = s"
  by (induction s) (auto simp: unescapeColon_Cons)

lemma unescape_id: "CHR ''_'' \<notin> set s \<Longrightarrow> unescapeColon s = s"
  by (induction s) (auto simp: unescapeColon_Cons)

text \<open>
  Claim C7, as stated, fails on Windows: the context names \<^verbatim>\<open>a:b\<close> and \<^verbatim>\<open>a__b\<close> are
  distinct and get the same state file, so the escaping is neither injective nor
  reversible.
\<close>

theorem state_file_name_collision_counterexample:
  "''a:b'' \<noteq> ''a__b'' \<and>
   NSFile_path windowsWorld (NewNSFile windowsWorld ''a:b'') =
   NSFile_path windowsWorld (NewNSFile windowsWorld ''a__b'')"
  by (simp add: NSFile_path_def NSFile_fn_def Let_def NewNSFile_def windowsWorld_def
      exampleWorld_def isWindows_def)

text \<open>
  Claim C7, amended. The name of the previous-namespace state file, as \<^verbatim>\<open>NSFile.path\<close>
  hands it to \<^verbatim>\<open>filepath.Join\<close>, is the context name itself off Windows, and on Windows
  the context name with every colon replaced by \<^verbatim>\<open>__\<close>, so that it has no colon; a
  context name without a colon is kept as it is. The escaping is reversible, hence
  injective, on the context names that contain no underscore: reading \<^verbatim>\<open>__\<close> back as a
  colon recovers the context name, and two such names with the same file name are equal.
\<close>

theorem state_file_name_escaping:
  "(\<not> isWindows w \<longrightarrow> NSFile_fn w f = ctx f) \<and>
   (isWindows w \<longrightarrow> CHR '':'' \<notin> set (NSFile_fn w f)) \<and>
   (CHR '':'' \<notin> set (ctx f) \<longrightarrow> NSFile_fn w f = ctx f) \<and>
   (CHR ''_'' \<notin> set (ctx f) \<longrightarrow> unescapeColon (NSFile_fn w f) = ctx f) \<and>
   (CHR ''_'' \<notin> set (ctx f) \<and> CHR ''_'' \<notin> set (ctx g) \<and> NSFile_fn w f = NSFile_fn w g \<longrightarrow>
      ctx f = ctx g)"
proof -
  have inv: "CHR ''_'' \<notin> set (ctx h) \<Longrightarrow> unescapeColon (NSFile_fn w h) = ctx h" for h
    by (simp add: NSFile_fn_def Let_def unescape_ReplaceAll unescape_id)
  have "ctx f = ctx g"
    if "CHR ''_'' \<notin> set (ctx f)" "CHR ''_'' \<notin> set (ctx g)" "NSFile_fn w f = NSFile_fn w g"
    using inv[OF that(1)] inv[OF that(2)] that(3) by simp
  then show ?thesis
    using inv[of f] by (auto simp: NSFile_fn_def Let_def ReplaceAll_no_colon ReplaceAll_id)
qed

theorem state_file_name_escaping_witness:
  "NSFile_fn exampleWorld (NewNSFile exampleWorld ''arn:aws:eks'') = ''arn:aws:eks'' \<and>
   NSFile_fn windowsWorld (NewNSFile windowsWorld ''arn:aws:eks'') = ''arn__aws__eks'' \<and>
   CHR '':'' \<notin> set (NSFile_fn windowsWorld (NewNSFile windowsWorld ''arn:aws:eks'')) \<and>
   unescapeColon (NSFile_fn windowsWorld (NewNSFile windowsWorld ''arn:aws:eks'')) =
     ''arn:aws:eks''"
proof -
  have h: "\<not> isWindows exampleWorld" "isWindows windowsWorld"
    "CHR ''_'' \<notin> set (ctx (NewNSFile windowsWorld ''arn:aws:eks''))"
    by (simp_all add: isWindows_def exampleWorld_def windowsWorld_def NewNSFile_def)
  have e: "NSFile_fn windowsWorld (NewNSFile windowsWorld ''arn:aws:eks'') = ''arn__aws__eks''"
    by (simp add: NSFile_fn_def isWindows_def exampleWorld_def windowsWorld_def NewNSFile_def
        Let_def)
  show ?thesis
    using state_file_name_escaping[of exampleWorld "NewNSFile exampleWorld ''arn:aws:eks''"]
      state_file_name_escaping[of windowsWorld "NewNSFile windowsWorld ''arn:aws:eks''"] h e
    by (simp add: NewNSFile_def)
qed

section \<open>Swap-back together with a namespace\<close>

lemma map_of_SetNamespace:
  "c \<in> set (map fst xs) \<Longrightarrow>
   map_of (map (\<lambda>(n, s). if n = c then (n, ns) else (n, s)) xs) c = Some ns"
  by (induction xs) auto

lemma NamespaceOfContext_SetNamespace:
  "ContextExists kc c \<Longrightarrow> SetNamespace kc c ns = Inr kc' \<Longrightarrow>
   NamespaceOfContext kc' c = Inr ns \<and> currentContext kc' = currentContext kc"
  using map_of_SetNamespace[of c "contexts kc" ns]
  by (auto simp: SetNamespace_def NamespaceOfContext_def ContextExists_def)

lemma ContextExists_NamespaceOfContext:
  "ContextExists kc c \<Longrightarrow> \<exists>cur. NamespaceOfContext kc c = Inr cur"
proof -
  assume "ContextExists kc c"
  then have "map_of (contexts kc) c \<noteq> None"
    by (simp add: ContextExists_def map_of_eq_None_iff)
  then show ?thesis by (auto simp: NamespaceOfContext_def)
qed

text \<open>\<^verbatim>\<open>namespaceExists\<close> looks at the environment variable and the client only.\<close>

lemma namespaceExists_env:
  assumes "MOCK_NAMESPACES w' = MOCK_NAMESPACES w" "clientset w' = clientset w"
    "namespacesGet w' = namespacesGet w"
  shows "namespaceExists w' kc' ns = namespaceExists w kc ns"
  unfolding namespaceExists_def newKubernetesClientSet_def assms ..

lemma switchNamespace_ok:
  assumes "ContextExists kc c" "namespaceExists w kc ns = Inr True" "\<not> saveFails w"
    "\<not> mkdirFails w (filepathDir w (NSFile_path w (NewNSFile w c)))"
    "\<not> writeFails w (NSFile_path w (NewNSFile w c))"
  shows "\<exists>kc' w'. switchNamespace kc c ns False w = (Inr ns, kc', w') \<and>
     kubeconfigFile w' = Some kc' \<and> currentContext kc' = currentContext kc \<and>
     NamespaceOfContext kc' c = Inr ns \<and> stderr w' = stderr w \<and> stderrFails w' = stderrFails w"
proof -
  obtain cur where cur: "NamespaceOfContext kc c = Inr cur"
    using ContextExists_NamespaceOfContext[OF assms(1)] by blast
  obtain kc' where kc': "SetNamespace kc c ns = Inr kc'"
    using assms(1) by (simp add: SetNamespace_def)
  have ns: "NamespaceOfContext kc' c = Inr ns" "currentContext kc' = currentContext kc"
    using NamespaceOfContext_SetNamespace[OF assms(1) kc'] by simp_all
  have path:
    "NSFile_path (w\<lparr>kubeconfigFile := Some kc'\<rparr>) (NewNSFile w c) = NSFile_path w (NewNSFile w c)"
    by (simp add: NSFile_path_def NSFile_fn_def isWindows_def)
  show ?thesis
    using cur kc' ns assms(2-5) path
    by (simp add: switchNamespace_def Let_def Save_def NSFile_Save_def MkdirAll_def
        WriteFile_def)
qed

text \<open>
  Claim C10, as stated, fails for the empty namespace value: the tokens \<^verbatim>\<open>- -n ""\<close>
  resolve to \<^verbatim>\<open>SwitchOp{Target: "-", Namespace: ""}\<close>, and running it swaps back and
  stops there; the namespace of the newly active context stays \<^verbatim>\<open>default\<close> and the
  message names the context only. The guard of \<^verbatim>\<open>Run\<close> is \<^verbatim>\<open>op.Namespace != ""\<close>.
\<close>

theorem swap_back_empty_namespace_counterexample:
  "parseArgs False ''kubectx'' [''-'', ''-n'', ''''] = Some (SwitchOp ''-'' '''') \<and>
   savedNamespace swapWorld ''user2@cluster1'' = Some ''default'' \<and>
   (case Run (SwitchOp ''-'' '''') swapWorld of
      Some (None, w') \<Rightarrow>
        activeContext w' = Some ''user2@cluster1'' \<and>
        savedNamespace w' ''user2@cluster1'' = Some ''default'' \<and>
        stderr w' = [(''Switched to context \"%s\".'', [''user2@cluster1''])]
    | _ \<Rightarrow> False)"
  by (simp add: parseArgs_def namespaceLoop.simps index_def remainingArgsOf_def slice_def
      classify_def parseRenameSyntax_def HasPrefix_def
      swapWorld_def exampleWorld_def exampleConfig_def SwitchOp_Run_def swapContext_def
      switchContext_def kubectxPrevCtxFile_def Parse_def GetCurrentContext_def ContextExists_def
      ModifyCurrentContext_def Save_def writeLastContext_def WriteFile_def
      readLastContext_def ReadFile_def activeContext_def savedNamespace_def NamespaceOfContext_def
      printer_Success_def Wrap_def Let_def)

text \<open>
  Claim C10, amended. For every namespace value \<open>n\<close> and either spelling \<open>f\<close> of the
  namespace flag, the token sequence \<open>[-, f, n]\<close> resolves to
  \<^verbatim>\<open>SwitchOp{Target: "-", Namespace: n}\<close>. For every \<open>n\<close> that is not the empty string,
  running that operation where the previous-context record names an existing context,
  the namespace exists and nothing fails, swaps back to the previous context and then
  switches the namespace of the newly active context to \<open>n\<close>: afterwards the saved
  configuration has the previous context active, with namespace \<open>n\<close>, and one message
  naming both has been printed.
\<close>

theorem swap_back_with_namespace:
  assumes "isNamespaceFlag f"
  shows "parseArgs interactive self [''-'', f, n] = Some (SwitchOp ''-'' n) \<and>
    (n \<noteq> '''' \<and> prevCtxFilePath w = Some p \<and> files w p = Content prev \<and> prev \<noteq> '''' \<and>
     kubeconfigFile w = Some kc \<and> ContextExists kc prev \<and>
     \<not> modifyFails w \<and> \<not> saveFails w \<and> \<not> writeFails w p \<and>
     namespaceExists w kc n = Inr True \<and>
     \<not> mkdirFails w (filepathDir w (NSFile_path w (NewNSFile w prev))) \<and>
     \<not> writeFails w (NSFile_path w (NewNSFile w prev)) \<and> \<not> stderrFails w \<longrightarrow>
     (case Run (SwitchOp ''-'' n) w of
        Some (None, w') \<Rightarrow>
          activeContext w' = Some prev \<and> savedNamespace w' prev = Some n \<and>
          stderr w' =
            stderr w @ [(''Switched to context \"%s\" and namespace \"%s\".'', [prev, n])]
      | _ \<Rightarrow> False))"
proof (intro conjI impI)
  have "classify interactive self n [''-''] = Some (SwitchOp ''-'' n)"
    by (simp add: classify_def index_def parseRenameSyntax_def HasPrefix_def)
  then show "parseArgs interactive self [''-'', f, n] = Some (SwitchOp ''-'' n)"
    using parseArgs_flag[of "[''-'', f, n]" 1 interactive self] assms
    by (simp add: isNamespaceFlag_def)
next
  assume a: "n \<noteq> '''' \<and> prevCtxFilePath w = Some p \<and> files w p = Content prev \<and> prev \<noteq> '''' \<and>
     kubeconfigFile w = Some kc \<and> ContextExists kc prev \<and>
     \<not> modifyFails w \<and> \<not> saveFails w \<and> \<not> writeFails w p \<and>
     namespaceExists w kc n = Inr True \<and>
     \<not> mkdirFails w (filepathDir w (NSFile_path w (NewNSFile w prev))) \<and>
     \<not> writeFails w (NSFile_path w (NewNSFile w prev)) \<and> \<not> stderrFails w"
  define w1 where "w1 = snd (switchContext prev w)"
  let ?kc1 = "kc\<lparr>currentContext := prev\<rparr>"
  have sw: "switchContext prev w = (Inr prev, w1)"
    and w1: "kubeconfigFile w1 = Some ?kc1" "saveFails w1 = saveFails w"
      "mkdirFails w1 = mkdirFails w" "writeFails w1 = writeFails w"
      "stderr w1 = stderr w" "stderrFails w1 = stderrFails w"
      "MOCK_NAMESPACES w1 = MOCK_NAMESPACES w" "clientset w1 = clientset w"
      "namespacesGet w1 = namespacesGet w" "filepathDir w1 = filepathDir w"
      "NSFile_path w1 (NewNSFile w1 prev) = NSFile_path w (NewNSFile w prev)"
    using a switchContext_ok[of w p kc prev]
    by (simp_all add: w1_def NSFile_path_def NSFile_fn_def NewNSFile_def isWindows_def)
  have swap: "swapContext w = (Inr prev, w1)"
    using swapContext_ok[of w p prev] a sw by simp
  have ex: "ContextExists ?kc1 prev" using a by (simp add: ContextExists_modify)
  have ne: "namespaceExists w1 ?kc1 n = Inr True"
    using namespaceExists_env[OF w1(7,8,9), of ?kc1 n kc] a by simp
  from switchNamespace_ok[OF ex ne] a w1
  obtain kc2 w2 where sn: "switchNamespace ?kc1 prev n False w1 = (Inr n, kc2, w2)"
    and w2: "kubeconfigFile w2 = Some kc2" "currentContext kc2 = prev"
      "NamespaceOfContext kc2 prev = Inr n" "stderr w2 = stderr w" "\<not> stderrFails w2"
    by auto
  show "case Run (SwitchOp ''-'' n) w of
        Some (None, w') \<Rightarrow>
          activeContext w' = Some prev \<and> savedNamespace w' prev = Some n \<and>
          stderr w' =
            stderr w @ [(''Switched to context \"%s\" and namespace \"%s\".'', [prev, n])]
      | _ \<Rightarrow> False"
    using a swap w1(1) sn w2
    by (simp add: SwitchOp_Run_def Parse_def printer_Success_def Wrap_def activeContext_def
        savedNamespace_def GetCurrentContext_def)
qed

theorem swap_back_with_namespace_witness:
  "parseArgs False ''kubectx'' [''-'', ''-n'', ''ns2''] = Some (SwitchOp ''-'' ''ns2'') \<and>
   (case Run (SwitchOp ''-'' ''ns2'') swapWorld of
      Some (None, w') \<Rightarrow>
        activeContext w' = Some ''user2@cluster1'' \<and>
        savedNamespace w' ''user2@cluster1'' = Some ''ns2'' \<and>
        stderr w' =
          [(''Switched to context \"%s\" and namespace \"%s\".'', [''user2@cluster1'', ''ns2''])]
    | _ \<Rightarrow> False)"
proof -
  have h: "isNamespaceFlag ''-n''"
    "''ns2'' \<noteq> '''' \<and> prevCtxFilePath swapWorld = Some ''/home/user/.kube/kubectx'' \<and>
     files swapWorld ''/home/user/.kube/kubectx'' = Content ''user2@cluster1'' \<and>
     ''user2@cluster1'' \<noteq> '''' \<and>
     kubeconfigFile swapWorld = Some exampleConfig \<and>
     ContextExists exampleConfig ''user2@cluster1'' \<and>
     \<not> modifyFails swapWorld \<and> \<not> saveFails swapWorld \<and>
     \<not> writeFails swapWorld ''/home/user/.kube/kubectx'' \<and>
     namespaceExists swapWorld exampleConfig ''ns2'' = Inr True \<and>
     \<not> mkdirFails swapWorld
         (filepathDir swapWorld (NSFile_path swapWorld (NewNSFile swapWorld ''user2@cluster1''))) \<and>
     \<not> writeFails swapWorld (NSFile_path swapWorld (NewNSFile swapWorld ''user2@cluster1'')) \<and>
     \<not> stderrFails swapWorld"
    "stderr swapWorld = []"
    by (simp_all add: isNamespaceFlag_def swapWorld_def exampleWorld_def exampleConfig_def
        ContextExists_def namespaceExists_def)
  show ?thesis
    using swap_back_with_namespace[OF h(1), of False "''kubectx''" "''ns2''" swapWorld
        "''/home/user/.kube/kubectx''" "''user2@cluster1''" exampleConfig] h(2,3)
    by (simp split: option.splits prod.splits)
qed

end
